theory Spec2Isabelle
  imports Complex_Main "HOL-Library.Log_Nat" "HOL-Library.Sublist"
begin

section \<open>Constant vectors of the symbolic package\<close>

text \<open>
  This theory embeds \<^verbatim>\<open>symbolic/constant_vector.go\<close>: the type \<^verbatim>\<open>KVector\<close> with
  its methods \<^verbatim>\<open>Len\<close>, \<^verbatim>\<open>Check\<close>, \<^verbatim>\<open>AtVec\<close>, \<^verbatim>\<open>LinearCoeff\<close>, \<^verbatim>\<open>Constant\<close>, \<^verbatim>\<open>Plus\<close>,
  \<^verbatim>\<open>Comparison\<close>, \<^verbatim>\<open>Multiply\<close>, \<^verbatim>\<open>ToVecDense\<close>, and the functions \<^verbatim>\<open>OnesVector\<close>,
  \<^verbatim>\<open>ZerosVector\<close> and \<^verbatim>\<open>VecDenseToKVector\<close>.

  A Go panic is a value: every operation that can panic returns \<open>error + 'a\<close>, with
  \<open>Inl\<close> for the panic. The numbers are Go's \<^verbatim>\<open>float64\<close>, the vectors of the linear
  algebra library are lists of them, and the operations of that library are modelled by
  their documented contract, panics included.
\<close>

subsection \<open>float64\<close>

text \<open>
  A \<^verbatim>\<open>float64\<close> is an IEEE 754 binary64 value. A finite value is
  \<open>(-1)\<^sup>s * m * 2\<^sup>e\<close>, with a mantissa \<open>m\<close> below \<open>2\<^sup>5\<^sup>3\<close> and an exponent \<open>e\<close> between
  \<open>-1074\<close> and \<open>971\<close>; a mantissa below \<open>2\<^sup>5\<^sup>2\<close> (a subnormal number, or zero) has the
  least exponent. Zero is signed. All NaNs are one value \<open>NaN\<close>: payloads are not
  distinguished.
\<close>

datatype float64 = Finite bool nat int | Infinity bool | NaN

fun valid_float64 :: "float64 \<Rightarrow> bool" where
  "valid_float64 (Finite s m e) =
     (m < 2 ^ 53 \<and> - 1074 \<le> e \<and> e \<le> 971 \<and> (e = - 1074 \<or> 2 ^ 52 \<le> m))"
| "valid_float64 (Infinity s) = True"
| "valid_float64 NaN = True"

definition pzero :: float64 where
  "pzero = Finite False 0 (- 1074)"

definition nzero :: float64 where
  "nzero = Finite True 0 (- 1074)"

definition fone :: float64 where
  "fone = Finite False (2 ^ 52) (- 52)"

text \<open>
  Rounding of the exact value \<open>(-1)\<^sup>s * m * 2\<^sup>e\<close> to the nearest \<^verbatim>\<open>float64\<close>, ties to
  the even mantissa (the rounding mode of Go's arithmetic). \<open>k\<close> is the number of low
  bits that do not fit: the mantissa keeps 53 bits and the exponent stays at or above
  \<open>-1074\<close>. \<open>rne_shift m k\<close> drops \<open>k\<close> bits of \<open>m\<close> and rounds; a mantissa that rounds up
  to \<open>2\<^sup>5\<^sup>3\<close> moves to the next exponent; a value with fewer bits is scaled to its
  normal form. A result beyond the largest finite number is an infinity.
\<close>

definition rne_shift :: "nat \<Rightarrow> nat \<Rightarrow> nat" where
  "rne_shift m k =
     (let q = m div 2 ^ k; r = m mod 2 ^ k; h = 2 ^ (k - 1)
      in if h < r \<or> (r = h \<and> odd q) then q + 1 else q)"

definition finite_or_inf :: "bool \<Rightarrow> nat \<Rightarrow> int \<Rightarrow> float64" where
  "finite_or_inf s m e = (if 971 < e then Infinity s else Finite s m e)"

definition round_float :: "bool \<Rightarrow> nat \<Rightarrow> int \<Rightarrow> float64" where
  "round_float s m e =
     (if m = 0 then Finite s 0 (- 1074)
      else let n = int (floorlog 2 m); k = max (n - 53) (- 1074 - e) in
        if 0 < k then
          let q = rne_shift m (nat k) in
          if q = 2 ^ 53 then finite_or_inf s (2 ^ 52) (e + k + 1)
          else finite_or_inf s q (e + k)
        else
          let d = min (53 - n) (e + 1074) in
          finite_or_inf s (m * 2 ^ nat d) (e - d))"

definition signed :: "bool \<Rightarrow> nat \<Rightarrow> int" where
  "signed s m = (if s then - int m else int m)"

text \<open>
  Go's \<^verbatim>\<open>x + y\<close> on \<^verbatim>\<open>float64\<close>: the exact sum, rounded. An exact sum of zero is
  \<open>+0\<close>, except that \<open>-0 + -0\<close> is \<open>-0\<close>.
\<close>

fun fadd :: "float64 \<Rightarrow> float64 \<Rightarrow> float64" where
  "fadd NaN y = NaN"
| "fadd x NaN = NaN"
| "fadd (Infinity s) (Infinity t) = (if s = t then Infinity s else NaN)"
| "fadd (Infinity s) (Finite t m e) = Infinity s"
| "fadd (Finite s m e) (Infinity t) = Infinity t"
| "fadd (Finite s1 m1 e1) (Finite s2 m2 e2) =
     (let e = min e1 e2;
          i = signed s1 (m1 * 2 ^ nat (e1 - e)) + signed s2 (m2 * 2 ^ nat (e2 - e))
      in if i = 0 then Finite (s1 \<and> s2) 0 (- 1074)
         else round_float (i < 0) (nat \<bar>i\<bar>) e)"

text \<open>Go's \<^verbatim>\<open>x * y\<close> on \<^verbatim>\<open>float64\<close>: the exact product, rounded.\<close>

fun fmul :: "float64 \<Rightarrow> float64 \<Rightarrow> float64" where
  "fmul NaN y = NaN"
| "fmul x NaN = NaN"
| "fmul (Infinity s) (Infinity t) = Infinity (s \<noteq> t)"
| "fmul (Infinity s) (Finite t m e) = (if m = 0 then NaN else Infinity (s \<noteq> t))"
| "fmul (Finite s m e) (Infinity t) = (if m = 0 then NaN else Infinity (s \<noteq> t))"
| "fmul (Finite s1 m1 e1) (Finite s2 m2 e2) = round_float (s1 \<noteq> s2) (m1 * m2) (e1 + e2)"

text \<open>
  Go's \<^verbatim>\<open>x == y\<close> on \<^verbatim>\<open>float64\<close>: NaN equals nothing, the two zeros are equal.
\<close>

fun feq :: "float64 \<Rightarrow> float64 \<Rightarrow> bool" where
  "feq (Finite s1 m1 e1) (Finite s2 m2 e2) =
     ((m1 = 0 \<and> m2 = 0) \<or> (s1 = s2 \<and> m1 = m2 \<and> e1 = e2))"
| "feq (Infinity s) (Infinity t) = (s = t)"
| "feq x y = False"

text \<open>The real number a finite \<^verbatim>\<open>float64\<close> stands for; infinities and NaN stand for none.\<close>

fun valof :: "float64 \<Rightarrow> real option" where
  "valof (Finite s m e) = Some (real_of_int (signed s m) * 2 powi e)"
| "valof (Infinity s) = None"
| "valof NaN = None"

subsection \<open>The data model\<close>

text \<open>
  \<^verbatim>\<open>K\<close> is a named \<^verbatim>\<open>float64\<close>: \<^verbatim>\<open>K(f)\<close> and \<^verbatim>\<open>float64(k)\<close> convert between the two
  without changing the value. \<^verbatim>\<open>type KVector []K\<close>.
\<close>

datatype K = K (float64_of: float64)

type_synonym KVector = "K list"

text \<open>
  Modelled from the spec: the declarations of the other expression variants are not in
  the file. A \<^verbatim>\<open>Variable\<close> has an identifier, a \<^verbatim>\<open>VariableVector\<close> is a sequence of
  variables (its field \<^verbatim>\<open>Elements\<close> is used by the tests), a \<^verbatim>\<open>Monomial\<close> is a
  coefficient with a sequence of variables and exponents, a \<^verbatim>\<open>Polynomial\<close> is a sum of
  monomials, and the vector forms are sequences of the scalar forms.
\<close>

datatype Variable = Variable (ID: nat)

datatype VariableVector = VariableVector (Elements: "Variable list")

datatype Monomial = Monomial (Coefficient: float64) (Factors: "(Variable \<times> int) list")

datatype Polynomial = Polynomial (Monomials: "Monomial list")

type_synonym MonomialVector = "Monomial list"

type_synonym PolynomialVector = "Polynomial list"

text \<open>The values of the interface \<^verbatim>\<open>Expression\<close>: the closed set of variants.\<close>

datatype Expression =
    KExpr K
  | VariableExpr Variable
  | MonomialExpr Monomial
  | PolynomialExpr Polynomial
  | KVectorExpr KVector
  | VariableVectorExpr VariableVector
  | MonomialVectorExpr MonomialVector
  | PolynomialVectorExpr PolynomialVector

text \<open>
  A \<^verbatim>\<open>mat.VecDense\<close> is the list of its elements; the zero value of the type is the
  empty list. A \<^verbatim>\<open>mat.Dense\<close> is the list of its rows.
\<close>

type_synonym VecDense = "float64 list"

type_synonym Dense = "float64 list list"

text \<open>
  The operators take \<^verbatim>\<open>rightIn interface{}\<close>: a \<^verbatim>\<open>float64\<close>, a \<^verbatim>\<open>*mat.VecDense\<close> (a
  pointer to a vector, not \<^verbatim>\<open>nil\<close>), a \<^verbatim>\<open>mat.VecDense\<close>, an expression, or a value of any
  other type (of which only the name of its type, as \<^verbatim>\<open>%T\<close> prints it, is kept).
\<close>

datatype Value =
    Float64Val float64
  | VecDensePtr VecDense
  | VecDenseVal VecDense
  | ExprVal Expression
  | OtherVal string

datatype ConstrSense = SenseEqual | SenseLessThanEqual | SenseGreaterThanEqual

text \<open>
  \<^verbatim>\<open>VectorConstraint{LeftHandSide, RightHandSide, Sense}\<close>, and its scalar counterpart,
  as values of the interface \<^verbatim>\<open>Constraint\<close>. A constraint holds two expressions and a
  sense, and no truth value.
\<close>

datatype Constraint =
    ScalarConstraint (LeftHandSide: Expression) (RightHandSide: Expression) (Sense: ConstrSense)
  | VectorConstraint (LeftHandSide: Expression) (RightHandSide: Expression) (Sense: ConstrSense)

text \<open>
  The panics of the linear algebra library that the file can reach:
  \<^verbatim>\<open>mat.ErrZeroLength\<close>, \<^verbatim>\<open>mat.ErrNegativeDimension\<close>, \<^verbatim>\<open>mat.ErrShape\<close> and
  \<^verbatim>\<open>mat.ErrRowAccess\<close>.
\<close>

datatype mat_error = ErrZeroLength | ErrNegativeDimension | ErrShape | ErrRowAccess

text \<open>
  The errors. \<^verbatim>\<open>DimensionError{Operation, Arg1, Arg2}\<close> is the structured error of the
  dimension checks. \<open>Errorf\<close> is a \<^verbatim>\<open>fmt.Errorf\<close> whose text is fully determined; the
  messages that print an operand with \<^verbatim>\<open>%v\<close> keep the operand instead of its text.
  \<open>ElementIssue i cause\<close> is a cause wrapped as \<^verbatim>\<open>"element i has an issue: ..."\<close>.
\<close>

datatype error =
    DimensionError (Operation: string) (Arg1: Expression) (Arg2: Expression)
  | Errorf string
  | UnrecognizedPlusType Value
  | ComparisonLengthMismatch int int
  | UnexpectedComparisonType ConstrSense Value
  | UnexpectedMultiplyType Value
  | UninitializedVariable
  | ElementIssue nat error
  | MakeSliceLenOutOfRange
  | MatPanic mat_error

definition bind :: "error + 'a \<Rightarrow> ('a \<Rightarrow> error + 'b) \<Rightarrow> error + 'b" where
  "bind r f = (case r of Inl e \<Rightarrow> Inl e | Inr x \<Rightarrow> f x)"

subsection \<open>The linear algebra library\<close>

text \<open>
  \<^verbatim>\<open>mat.NewVecDense(n, data)\<close> panics if \<open>n\<close> is zero or negative, and if \<open>data\<close> has
  another length than \<open>n\<close>. (A \<^verbatim>\<open>nil\<close> slice, for which the library allocates, is never
  passed by the file: every slice comes from \<^verbatim>\<open>make\<close>.)
\<close>

definition NewVecDense :: "int \<Rightarrow> float64 list \<Rightarrow> error + VecDense" where
  "NewVecDense n data =
     (if n \<le> 0 then (if n = 0 then Inl (MatPanic ErrZeroLength)
                     else Inl (MatPanic ErrNegativeDimension))
      else if int (length data) \<noteq> n then Inl (MatPanic ErrShape)
      else Inr data)"

definition VecDense_Len :: "VecDense \<Rightarrow> int" where
  "VecDense_Len v = int (length v)"

text \<open>\<^verbatim>\<open>v.AtVec(i)\<close> panics if \<open>i\<close> is out of bounds.\<close>

definition VecDense_AtVec :: "VecDense \<Rightarrow> int \<Rightarrow> error + float64" where
  "VecDense_AtVec v i =
     (if 0 \<le> i \<and> i < int (length v) then Inr (v ! nat i) else Inl (MatPanic ErrRowAccess))"

text \<open>
  \<^verbatim>\<open>result.AddVec(a, b)\<close> on an empty receiver: the elementwise sum; it panics if the
  lengths differ. \<^verbatim>\<open>result.ScaleVec(alpha, a)\<close>: every element times \<open>alpha\<close>. Both
  panic on operands of length zero: the receiver cannot be given that length.
\<close>

definition AddVec :: "VecDense \<Rightarrow> VecDense \<Rightarrow> error + VecDense" where
  "AddVec a b =
     (if length a \<noteq> length b then Inl (MatPanic ErrShape)
      else if a = [] then Inl (MatPanic ErrZeroLength)
      else Inr (map2 fadd a b))"

definition ScaleVec :: "float64 \<Rightarrow> VecDense \<Rightarrow> error + VecDense" where
  "ScaleVec alpha a =
     (if a = [] then Inl (MatPanic ErrZeroLength) else Inr (map (fmul alpha) a))"

subsection \<open>Conversions\<close>

definition KVector_Len :: "KVector \<Rightarrow> int" where
  "KVector_Len kv = int (length kv)"

text \<open>
  \<^verbatim>\<open>ToVecDense\<close>: a slice of \<^verbatim>\<open>kv.Len()\<close> zeros, filled by the loop over the indices
  of \<open>kv\<close>, then handed to \<^verbatim>\<open>mat.NewVecDense\<close>.
\<close>

definition ToVecDense :: "KVector \<Rightarrow> error + VecDense" where
  "ToVecDense kv =
     (let dataIn = fold (\<lambda>ii d. d[ii := float64_of (kv ! ii)]) [0..<length kv]
                     (replicate (nat (KVector_Len kv)) pzero)
      in NewVecDense (int (length kv)) dataIn)"

text \<open>
  \<^verbatim>\<open>VecDenseToKVector\<close>: a slice of \<^verbatim>\<open>v.Len()\<close> elements, filled by the loop
  \<^verbatim>\<open>out[ii] = K(v.AtVec(ii))\<close>; a panic of \<^verbatim>\<open>AtVec\<close> ends the loop.
\<close>

fun VecDenseToKVector_loop :: "VecDense \<Rightarrow> nat list \<Rightarrow> KVector \<Rightarrow> error + KVector" where
  "VecDenseToKVector_loop v [] out = Inr out"
| "VecDenseToKVector_loop v (ii # rest) out =
     (case VecDense_AtVec v (int ii) of
        Inl e \<Rightarrow> Inl e
      | Inr x \<Rightarrow> VecDenseToKVector_loop v rest (out[ii := K x]))"

definition VecDenseToKVector :: "VecDense \<Rightarrow> error + KVector" where
  "VecDenseToKVector v =
     VecDenseToKVector_loop v [0..<nat (VecDense_Len v)]
       (replicate (nat (VecDense_Len v)) (K pzero))"

text \<open>
  \<^verbatim>\<open>OnesVector\<close> and \<^verbatim>\<open>ZerosVector\<close>: \<^verbatim>\<open>make\<close> panics on a negative length; the loop
  sets every element.
\<close>

definition OnesVector :: "int \<Rightarrow> error + VecDense" where
  "OnesVector lengthIn =
     (if lengthIn < 0 then Inl MakeSliceLenOutOfRange
      else NewVecDense lengthIn
             (fold (\<lambda>eltIndex elts. elts[eltIndex := fone]) [0..<nat lengthIn]
                (replicate (nat lengthIn) pzero)))"

definition ZerosVector :: "int \<Rightarrow> error + VecDense" where
  "ZerosVector lengthIn =
     (if lengthIn < 0 then Inl MakeSliceLenOutOfRange
      else NewVecDense lengthIn
             (fold (\<lambda>eltIndex elts. elts[eltIndex := pzero]) [0..<nat lengthIn]
                (replicate (nat lengthIn) pzero)))"

subsection \<open>What the file takes from the rest of the package\<close>

text \<open>
  Modelled from the spec: \<^verbatim>\<open>Len()\<close> of an expression is missing for the variants other
  than \<^verbatim>\<open>KVector\<close>. It is the element count: the length of a vector variant, and one
  for a scalar variant, whose shape is \<open>[1, 1]\<close>.
\<close>

fun Expression_Len :: "Expression \<Rightarrow> int" where
  "Expression_Len (KVectorExpr kv) = KVector_Len kv"
| "Expression_Len (VariableVectorExpr vv) = int (length (Elements vv))"
| "Expression_Len (MonomialVectorExpr mv) = int (length mv)"
| "Expression_Len (PolynomialVectorExpr pv) = int (length pv)"
| "Expression_Len (KExpr k) = 1"
| "Expression_Len (VariableExpr v) = 1"
| "Expression_Len (MonomialExpr m) = 1"
| "Expression_Len (PolynomialExpr p) = 1"

fun IsVectorExpression :: "Expression \<Rightarrow> bool" where
  "IsVectorExpression (KVectorExpr kv) = True"
| "IsVectorExpression (VariableVectorExpr vv) = True"
| "IsVectorExpression (MonomialVectorExpr mv) = True"
| "IsVectorExpression (PolynomialVectorExpr pv) = True"
| "IsVectorExpression (KExpr k) = False"
| "IsVectorExpression (VariableExpr v) = False"
| "IsVectorExpression (MonomialExpr m) = False"
| "IsVectorExpression (PolynomialExpr p) = False"

text \<open>
  Modelled from the spec: \<^verbatim>\<open>ToExpression\<close> and \<^verbatim>\<open>IsExpression\<close> are missing. The
  conversion classifies its input as a numeric literal (which becomes a \<^verbatim>\<open>K\<close>), a
  native dense vector (which becomes a \<^verbatim>\<open>KVector\<close>) or an expression variant, and fails
  on anything else; \<^verbatim>\<open>IsExpression\<close> is the corresponding predicate.
\<close>

fun ToExpression :: "Value \<Rightarrow> Expression option" where
  "ToExpression (Float64Val f) = Some (KExpr (K f))"
| "ToExpression (VecDensePtr v) = Some (KVectorExpr (map K v))"
| "ToExpression (VecDenseVal v) = Some (KVectorExpr (map K v))"
| "ToExpression (ExprVal e) = Some e"
| "ToExpression (OtherVal t) = None"

definition IsExpression :: "Value \<Rightarrow> bool" where
  "IsExpression v = (ToExpression v \<noteq> None)"

text \<open>
  Modelled from the spec: \<^verbatim>\<open>CheckDimensionsInAddition\<close> is missing. Both operands must
  report equal \<^verbatim>\<open>Len()\<close>; a violation yields
  \<^verbatim>\<open>DimensionError{Operation: "Plus", Arg1, Arg2}\<close> with both operands.
\<close>

definition CheckDimensionsInAddition :: "Expression \<Rightarrow> Expression \<Rightarrow> error option" where
  "CheckDimensionsInAddition left right =
     (if Expression_Len left = Expression_Len right then None
      else Some (DimensionError ''Plus'' left right))"

text \<open>
  Modelled from the spec: \<^verbatim>\<open>CheckDimensionsInComparison\<close> is missing. The operands
  must have equal \<^verbatim>\<open>Len()\<close>; the sense is not evaluated. The spec gives the error no
  operation name; it is \<open>''Comparison''\<close> here.
\<close>

definition CheckDimensionsInComparison ::
  "Expression \<Rightarrow> Expression \<Rightarrow> ConstrSense \<Rightarrow> error option" where
  "CheckDimensionsInComparison left right sense =
     (if Expression_Len left = Expression_Len right then None
      else Some (DimensionError ''Comparison'' left right))"

text \<open>
  The methods of the other variants that \<^verbatim>\<open>KVector\<close> calls, and the part of the
  multiplication check that the spec leaves open, are parameters of the embedding:
  \<^item> \<^verbatim>\<open>Plus\<close> of \<^verbatim>\<open>VariableVector\<close>, \<^verbatim>\<open>MonomialVector\<close> and \<^verbatim>\<open>PolynomialVector\<close>;
  \<^item> \<^verbatim>\<open>Comparison\<close> of \<^verbatim>\<open>VariableVector\<close>;
  \<^item> \<^verbatim>\<open>Check\<close> of the variants other than \<^verbatim>\<open>KVector\<close>;
  \<^item> the verdict of \<^verbatim>\<open>CheckDimensionsInMultiplication\<close> on two vectors.
\<close>

record Impl =
  VariableVector_Plus :: "VariableVector \<Rightarrow> Value \<Rightarrow> error + Expression"
  MonomialVector_Plus :: "MonomialVector \<Rightarrow> Value \<Rightarrow> error + Expression"
  PolynomialVector_Plus :: "PolynomialVector \<Rightarrow> Value \<Rightarrow> error + Expression"
  VariableVector_Comparison :: "VariableVector \<Rightarrow> Value \<Rightarrow> ConstrSense \<Rightarrow> error + Constraint"
  Variant_Check :: "Expression \<Rightarrow> error option"
  VectorProduct_Check :: "Expression \<Rightarrow> Expression \<Rightarrow> error option"

text \<open>
  Modelled from the spec: \<^verbatim>\<open>CheckDimensionsInMultiplication\<close> is missing. A product
  with a scalar is always valid. Which products of two vectors the check itself rejects
  the spec does not say: that verdict is \<open>VectorProduct_Check\<close>.
\<close>

definition CheckDimensionsInMultiplication ::
  "Impl \<Rightarrow> Expression \<Rightarrow> Expression \<Rightarrow> error option" where
  "CheckDimensionsInMultiplication I left right =
     (if \<not> IsVectorExpression left \<or> \<not> IsVectorExpression right then None
      else VectorProduct_Check I left right)"

text \<open>
  Modelled from the spec: \<^verbatim>\<open>ZerosMatrix\<close> is missing. \<^verbatim>\<open>ZerosMatrix(r, c)\<close> is the
  \<open>r \<times> c\<close> zero matrix.
\<close>

definition ZerosMatrix :: "int \<Rightarrow> int \<Rightarrow> Dense" where
  "ZerosMatrix nR nC = replicate (nat nR) (replicate (nat nC) pzero)"

subsection \<open>The methods of KVector\<close>

text \<open>\<^verbatim>\<open>Check\<close> returns \<^verbatim>\<open>nil\<close>.\<close>

definition KVector_Check :: "KVector \<Rightarrow> error option" where
  "KVector_Check kv = None"

text \<open>\<^verbatim>\<open>rightAsE.Check()\<close> dispatches on the variant.\<close>

definition Expression_Check :: "Impl \<Rightarrow> Expression \<Rightarrow> error option" where
  "Expression_Check I e =
     (case e of KVectorExpr kv \<Rightarrow> KVector_Check kv | _ \<Rightarrow> Variant_Check I e)"

text \<open>
  \<^verbatim>\<open>AtVec\<close>: the test of the index has an empty body; the element is read from the
  dense vector of \<open>kv\<close>.
\<close>

definition AtVec :: "KVector \<Rightarrow> int \<Rightarrow> error + Expression" where
  "AtVec kv idx =
     bind (ToVecDense kv) (\<lambda>kvAsVector.
     bind (VecDense_AtVec kvAsVector idx) (\<lambda>x. Inr (KExpr (K x))))"

definition LinearCoeff :: "KVector \<Rightarrow> Dense" where
  "LinearCoeff kv = ZerosMatrix (KVector_Len kv) (KVector_Len kv)"

definition Constant :: "KVector \<Rightarrow> error + VecDense" where
  "Constant kv = ToVecDense kv"

text \<open>
  \<^verbatim>\<open>Variables\<close> is the empty slice, \<^verbatim>\<open>Dims\<close> is \<^verbatim>\<open>[kv.Len(), 1]\<close>, and the derivative
  with respect to any variable is the zero vector of the length of \<open>kv\<close>.
\<close>

definition Variables :: "KVector \<Rightarrow> Variable list" where
  "Variables kv = []"

definition Dims :: "KVector \<Rightarrow> int list" where
  "Dims kv = [KVector_Len kv, 1]"

definition DerivativeWrt :: "KVector \<Rightarrow> Variable \<Rightarrow> error + Expression" where
  "DerivativeWrt kv vIn =
     bind (ZerosVector (KVector_Len kv)) (\<lambda>z.
     bind (VecDenseToKVector z) (\<lambda>r. Inr (KVectorExpr r)))"

text \<open>
  \<^verbatim>\<open>Plus\<close>. A \<^verbatim>\<open>float64\<close>, a \<^verbatim>\<open>K\<close> and a \<^verbatim>\<open>*mat.VecDense\<close> are converted and added by
  a call of \<^verbatim>\<open>Plus\<close> itself, which runs the checks again; the rank of the operand
  bounds these calls.
\<close>

fun Plus_rank :: "Value \<Rightarrow> nat" where
  "Plus_rank (ExprVal (KExpr k)) = 2"
| "Plus_rank (Float64Val f) = 1"
| "Plus_rank (VecDensePtr v) = 1"
| "Plus_rank v = 0"

function Plus :: "Impl \<Rightarrow> KVector \<Rightarrow> Value \<Rightarrow> error + Expression" where
  "Plus I kv rightIn =
     (case KVector_Check kv of
        Some err \<Rightarrow> Inl err
      | None \<Rightarrow>
     (case (if IsExpression rightIn
            then (case ToExpression rightIn of
                    Some rightAsE \<Rightarrow> CheckDimensionsInAddition (KVectorExpr kv) rightAsE
                  | None \<Rightarrow> None)
            else None) of
        Some err \<Rightarrow> Inl err
      | None \<Rightarrow>
     (case rightIn of
        Float64Val right \<Rightarrow>
          (case OnesVector (KVector_Len kv) of
             Inl e \<Rightarrow> Inl e
           | Inr tempOnes \<Rightarrow>
          (case ScaleVec right tempOnes of
             Inl e \<Rightarrow> Inl e
           | Inr eAsVec \<Rightarrow>
          (case VecDenseToKVector eAsVec of
             Inl e \<Rightarrow> Inl e
           | Inr e \<Rightarrow> Plus I kv (ExprVal (KVectorExpr e)))))
      | VecDensePtr right \<Rightarrow>
          (case VecDenseToKVector right of
             Inl e \<Rightarrow> Inl e
           | Inr e \<Rightarrow> Plus I kv (ExprVal (KVectorExpr e)))
      | ExprVal (KExpr right) \<Rightarrow> Plus I kv (Float64Val (float64_of right))
      | ExprVal (KVectorExpr right) \<Rightarrow>
          bind (ToVecDense kv) (\<lambda>kvAsVec.
          bind (ToVecDense right) (\<lambda>eAsVec.
          bind (AddVec kvAsVec eAsVec) (\<lambda>result.
          bind (VecDenseToKVector result) (\<lambda>r. Inr (KVectorExpr r)))))
      | ExprVal (VariableVectorExpr right) \<Rightarrow>
          VariableVector_Plus I right (ExprVal (KVectorExpr kv))
      | ExprVal (MonomialVectorExpr right) \<Rightarrow>
          MonomialVector_Plus I right (ExprVal (KVectorExpr kv))
      | ExprVal (PolynomialVectorExpr right) \<Rightarrow>
          PolynomialVector_Plus I right (ExprVal (KVectorExpr kv))
      | _ \<Rightarrow> Inl (UnrecognizedPlusType rightIn))))"
  by pat_completeness auto
termination
  by (relation "measure (\<lambda>(I, kv, rightIn). Plus_rank rightIn)") auto

declare Plus.simps [simp del]

text \<open>
  \<^verbatim>\<open>Comparison\<close>. The operand is checked and measured first; a \<^verbatim>\<open>KVector\<close> is
  recorded on the right of the receiver, a \<^verbatim>\<open>VariableVector\<close> is handed the receiver
  and the sense; every other operand is refused.
\<close>

definition Comparison :: "Impl \<Rightarrow> KVector \<Rightarrow> Value \<Rightarrow> ConstrSense \<Rightarrow> error + Constraint" where
  "Comparison I kv rightIn sense =
     (case KVector_Check kv of
        Some err \<Rightarrow> Inl err
      | None \<Rightarrow>
     (case (if IsExpression rightIn
            then (case ToExpression rightIn of
                    Some rightAsE \<Rightarrow>
                      (case Expression_Check I rightAsE of
                         Some err \<Rightarrow> Some err
                       | None \<Rightarrow> CheckDimensionsInComparison (KVectorExpr kv) rightAsE sense)
                  | None \<Rightarrow> None)
            else None) of
        Some err \<Rightarrow> Inl err
      | None \<Rightarrow>
     (case rightIn of
        ExprVal (KVectorExpr rhsConverted) \<Rightarrow>
          (if KVector_Len kv \<noteq> KVector_Len rhsConverted
           then Inl (ComparisonLengthMismatch (KVector_Len kv) (KVector_Len rhsConverted))
           else Inr (VectorConstraint (KVectorExpr kv) (KVectorExpr rhsConverted) sense))
      | ExprVal (VariableVectorExpr rhsConverted) \<Rightarrow>
          VariableVector_Comparison I rhsConverted (ExprVal (KVectorExpr kv)) sense
      | _ \<Rightarrow> Inl (UnexpectedComparisonType sense rightIn))))"

definition LessEq :: "Impl \<Rightarrow> KVector \<Rightarrow> Value \<Rightarrow> error + Constraint" where
  "LessEq I kv rightIn = Comparison I kv rightIn SenseLessThanEqual"

definition GreaterEq :: "Impl \<Rightarrow> KVector \<Rightarrow> Value \<Rightarrow> error + Constraint" where
  "GreaterEq I kv rightIn = Comparison I kv rightIn SenseGreaterThanEqual"

definition Eq :: "Impl \<Rightarrow> KVector \<Rightarrow> Value \<Rightarrow> error + Constraint" where
  "Eq I kv rightIn = Comparison I kv rightIn SenseEqual"

text \<open>
  \<^verbatim>\<open>Multiply\<close>. The two messages for a vector operand print the type of the operand
  with \<^verbatim>\<open>%T\<close>.
\<close>

definition TransposeHint :: "string \<Rightarrow> error" where
  "TransposeHint typeName =
     Errorf (''dimension mismatch! Cannot multiply KVector with a vector of type ''
             @ typeName @ ''; Try transposing one or the other!'')"

fun Multiply_rank :: "Value \<Rightarrow> nat" where
  "Multiply_rank (ExprVal (KExpr k)) = 1"
| "Multiply_rank v = 0"

function Multiply :: "Impl \<Rightarrow> KVector \<Rightarrow> Value \<Rightarrow> error + Expression" where
  "Multiply I kv rightIn =
     (case KVector_Check kv of
        Some err \<Rightarrow> Inl err
      | None \<Rightarrow>
     (case (if IsExpression rightIn
            then (case ToExpression rightIn of
                    Some rightAsE \<Rightarrow> CheckDimensionsInMultiplication I (KVectorExpr kv) rightAsE
                  | None \<Rightarrow> None)
            else None) of
        Some err \<Rightarrow> Inl err
      | None \<Rightarrow>
     (case rightIn of
        Float64Val right \<Rightarrow>
          bind (ToVecDense kv) (\<lambda>kvAsVec.
          bind (ScaleVec right kvAsVec) (\<lambda>result.
          bind (VecDenseToKVector result) (\<lambda>r. Inr (KVectorExpr r))))
      | ExprVal (KExpr right) \<Rightarrow> Multiply I kv (Float64Val (float64_of right))
      | VecDenseVal right \<Rightarrow>
          Inl (Errorf ''MatProInterface does not currently support operations that result in matrices! if you want this feature, create an issue!'')
      | ExprVal (KVectorExpr right) \<Rightarrow> Inl (TransposeHint ''symbolic.KVector'')
      | ExprVal (VariableVectorExpr right) \<Rightarrow> Inl (TransposeHint ''symbolic.VariableVector'')
      | _ \<Rightarrow> Inl (UnexpectedMultiplyType rightIn))))"
  by pat_completeness auto
termination
  by (relation "measure (\<lambda>(I, kv, rightIn). Multiply_rank rightIn)") auto

declare Multiply.simps [simp del]

subsection \<open>The affine reading of a coefficient matrix and a constant\<close>

text \<open>
  Modelled from the spec: the product of the coefficient matrix with the variable vector
  is computed outside the file. For an assignment \<open>x\<close> of a real number to every column,
  \<open>dot row x j\<close> is the sum of the entries of \<open>row\<close> times the values of the columns from
  \<open>j\<close> on, and \<open>affine_row row c x\<close> is that sum for the whole row plus the constant \<open>c\<close>.
  Both are computed on the real numbers, and have a value when every entry has one.
\<close>

fun dot :: "float64 list \<Rightarrow> (nat \<Rightarrow> real) \<Rightarrow> nat \<Rightarrow> real option" where
  "dot [] x j = Some 0"
| "dot (a # as) x j =
     (case valof a of
        None \<Rightarrow> None
      | Some v \<Rightarrow> (case dot as x (Suc j) of None \<Rightarrow> None | Some r \<Rightarrow> Some (v * x j + r)))"

definition affine_row :: "float64 list \<Rightarrow> float64 \<Rightarrow> (nat \<Rightarrow> real) \<Rightarrow> real option" where
  "affine_row row c x =
     (case dot row x 0 of
        None \<Rightarrow> None
      | Some r \<Rightarrow> (case valof c of None \<Rightarrow> None | Some v \<Rightarrow> Some (r + v)))"

subsection \<open>A sample of the parameters\<close>

text \<open>
  Modelled from the spec: \<^verbatim>\<open>Check\<close> of \<^verbatim>\<open>Variable\<close> and of \<^verbatim>\<open>VariableVector\<close> are
  missing. A variable whose identifier is zero is invalid. The check of a vector tests
  every element and, at the first failing index \<open>i\<close>, returns the cause wrapped as
  \<^verbatim>\<open>"element i has an issue: "\<close>. The spec states no invariant for the other variants.
\<close>

definition Variable_Check :: "Variable \<Rightarrow> error option" where
  "Variable_Check v = (if ID v = 0 then Some UninitializedVariable else None)"

fun Elements_Check :: "Variable list \<Rightarrow> nat \<Rightarrow> error option" where
  "Elements_Check [] i = None"
| "Elements_Check (v # vs) i =
     (case Variable_Check v of
        Some cause \<Rightarrow> Some (ElementIssue i cause)
      | None \<Rightarrow> Elements_Check vs (Suc i))"

definition VariableVector_Check :: "VariableVector \<Rightarrow> error option" where
  "VariableVector_Check vv = Elements_Check (Elements vv) 0"

fun Variant_Check_spec :: "Expression \<Rightarrow> error option" where
  "Variant_Check_spec (VariableExpr v) = Variable_Check v"
| "Variant_Check_spec (VariableVectorExpr vv) = VariableVector_Check vv"
| "Variant_Check_spec e = None"

text \<open>
  Modelled from the spec: \<^verbatim>\<open>Comparison\<close> of \<^verbatim>\<open>VariableVector\<close> is missing. It runs
  \<^verbatim>\<open>Check()\<close> on the receiver, coerces \<^verbatim>\<open>rightIn\<close>, runs the comparison dimension check,
  and records the receiver as \<^verbatim>\<open>LeftHandSide\<close>, the operand as \<^verbatim>\<open>RightHandSide\<close> and the
  sense.
\<close>

definition VariableVector_Comparison_spec ::
  "VariableVector \<Rightarrow> Value \<Rightarrow> ConstrSense \<Rightarrow> error + Constraint" where
  "VariableVector_Comparison_spec vv rightIn sense =
     (case VariableVector_Check vv of
        Some err \<Rightarrow> Inl err
      | None \<Rightarrow>
     (case ToExpression rightIn of
        None \<Rightarrow> Inl (UnexpectedComparisonType sense rightIn)
      | Some rightAsE \<Rightarrow>
     (case CheckDimensionsInComparison (VariableVectorExpr vv) rightAsE sense of
        Some err \<Rightarrow> Inl err
      | None \<Rightarrow> Inr (VectorConstraint (VariableVectorExpr vv) rightAsE sense))))"

text \<open>
  The theorems below hold for every value of the parameters. \<open>sample_Impl\<close> is one value,
  on which the model can be run: the checks and the comparison are the ones modelled
  above, the multiplication check leaves a product of two vectors to the variant, and
  the sums of the other variants, of which the spec fixes no result, refuse their
  operand.
\<close>

definition sample_Impl :: Impl where
  "sample_Impl =
     \<lparr> VariableVector_Plus = (\<lambda>vv rightIn. Inl (UnrecognizedPlusType rightIn)),
       MonomialVector_Plus = (\<lambda>mv rightIn. Inl (UnrecognizedPlusType rightIn)),
       PolynomialVector_Plus = (\<lambda>pv rightIn. Inl (UnrecognizedPlusType rightIn)),
       VariableVector_Comparison = VariableVector_Comparison_spec,
       Variant_Check = Variant_Check_spec,
       VectorProduct_Check = (\<lambda>left right. None) \<rparr>"


text \<open>Go's \<^verbatim>\<open>==\<close>, element by element, on two constant vectors.\<close>

definition KVector_eq :: "KVector \<Rightarrow> KVector \<Rightarrow> bool" where
  "KVector_eq a b = list_all2 (\<lambda>x y. feq (float64_of x) (float64_of y)) a b"

section \<open>Properties\<close>

subsection \<open>The conversions as maps\<close>

lemma fold_update_upt:
  "k \<le> length xs \<Longrightarrow> fold (\<lambda>i d. d[i := f i]) [0..<k] xs = map f [0..<k] @ drop k xs"
proof (induction k)
  case 0
  then show ?case by simp
next
  case (Suc k)
  then have "k < length xs" by simp
  then have "(map f [0..<k] @ drop k xs)[k := f k] = map f [0..<k] @ f k # drop (Suc k) xs"
    by (simp add: list_update_append upd_conv_take_nth_drop)
  with Suc show ?case by simp
qed

lemma fold_update_all:
  "length xs = n \<Longrightarrow> fold (\<lambda>i d. d[i := f i]) [0..<n] xs = map f [0..<n]"
  using fold_update_upt [of n xs f] by simp

lemma map_nth_upt: "map (\<lambda>i. f (xs ! i)) [0..<length xs] = map f xs"
  by (rule nth_equalityI) simp_all

lemma ToVecDense_eq:
  "ToVecDense kv = (if kv = [] then Inl (MatPanic ErrZeroLength) else Inr (map float64_of kv))"
proof -
  have "fold (\<lambda>ii d. d[ii := float64_of (kv ! ii)]) [0..<length kv] (replicate (length kv) pzero)
        = map (\<lambda>ii. float64_of (kv ! ii)) [0..<length kv]"
    by (rule fold_update_all) simp
  also have "\<dots> = map float64_of kv"
    by (rule map_nth_upt)
  finally show ?thesis
    by (simp add: ToVecDense_def KVector_Len_def NewVecDense_def)
qed

lemma VecDenseToKVector_loop_eq:
  "\<forall>i \<in> set is. i < length v \<Longrightarrow>
     VecDenseToKVector_loop v is out = Inr (fold (\<lambda>i d. d[i := K (v ! i)]) is out)"
  by (induction "is" arbitrary: out) (simp_all add: VecDense_AtVec_def)

lemma VecDenseToKVector_eq: "VecDenseToKVector v = Inr (map K v)"
proof -
  have "fold (\<lambda>i d. d[i := K (v ! i)]) [0..<length v] (replicate (length v) (K pzero))
        = map (\<lambda>i. K (v ! i)) [0..<length v]"
    by (rule fold_update_all) simp
  also have "\<dots> = map K v"
    by (rule map_nth_upt)
  finally show ?thesis
    by (simp add: VecDenseToKVector_def VecDense_Len_def VecDenseToKVector_loop_eq)
qed

lemma OnesVector_eq:
  "OnesVector n = (if n < 0 then Inl MakeSliceLenOutOfRange
                   else if n = 0 then Inl (MatPanic ErrZeroLength)
                   else Inr (replicate (nat n) fone))"
proof -
  have "fold (\<lambda>i d. d[i := fone]) [0..<nat n] (replicate (nat n) pzero) = map (\<lambda>i. fone) [0..<nat n]"
    by (rule fold_update_all) simp
  then show ?thesis
    by (simp add: OnesVector_def NewVecDense_def map_replicate_const)
qed

lemma ZerosVector_eq:
  "ZerosVector n = (if n < 0 then Inl MakeSliceLenOutOfRange
                   else if n = 0 then Inl (MatPanic ErrZeroLength)
                   else Inr (replicate (nat n) pzero))"
proof -
  have "fold (\<lambda>i d. d[i := pzero]) [0..<nat n] (replicate (nat n) pzero) = map (\<lambda>i. pzero) [0..<nat n]"
    by (rule fold_update_all) simp
  then show ?thesis
    by (simp add: ZerosVector_def NewVecDense_def map_replicate_const)
qed

subsection \<open>float64 arithmetic\<close>

lemma floorlog2_One: "floorlog 2 (Suc 0) = 1"
  by (subst compute_floorlog) (simp add: floorlog_eq_zero_iff)

lemma floorlog2_Bit0: "floorlog 2 (numeral (Num.Bit0 n)) = floorlog 2 (numeral n) + 1"
  by (subst compute_floorlog) simp

lemma floorlog2_Bit1: "floorlog 2 (numeral (Num.Bit1 n)) = floorlog 2 (numeral n) + 1"
  by (subst compute_floorlog) simp

lemmas floorlog2_numeral = floorlog2_One floorlog2_Bit0 floorlog2_Bit1

text \<open>
  Known sums: \<open>0.1 + 0.2\<close> is \<open>0.30000000000000004\<close>; \<open>1 + 2\<^sup>5\<^sup>3\<close>, a tie between \<open>2\<^sup>5\<^sup>3\<close>
  and \<open>2\<^sup>5\<^sup>3 + 2\<close>, is \<open>2\<^sup>5\<^sup>3\<close>; \<open>2\<^sup>5\<^sup>3 + (-2\<^sup>5\<^sup>3)\<close> is \<open>+0\<close>; \<open>1 + 0\<close> is \<open>1\<close>.
\<close>

lemma fadd_tenth_fifth:
  "fadd (Finite False 7205759403792794 (- 56)) (Finite False 7205759403792794 (- 55))
     = Finite False 5404319552844596 (- 54)"
  by (simp add: round_float_def rne_shift_def finite_or_inf_def signed_def Let_def floorlog2_numeral)

lemma fadd_1_2p53:
  "fadd (Finite False 4503599627370496 (- 52)) (Finite False 4503599627370496 1)
     = Finite False 4503599627370496 1"
  by (simp add: round_float_def rne_shift_def finite_or_inf_def signed_def Let_def floorlog2_numeral)

lemma fadd_2p53_neg:
  "fadd (Finite False 4503599627370496 1) (Finite True 4503599627370496 1)
     = Finite False 0 (- 1074)"
  by (simp add: signed_def Let_def)

lemma fadd_1_0:
  "fadd (Finite False 4503599627370496 (- 52)) (Finite False 0 (- 1074))
     = Finite False 4503599627370496 (- 52)"
  by (simp add: round_float_def rne_shift_def finite_or_inf_def signed_def Let_def floorlog2_numeral)

lemma fmul_fone_fone: "fmul fone fone = fone"
  by (simp add: fone_def round_float_def rne_shift_def finite_or_inf_def Let_def floorlog2_numeral)

lemma fmul_fone_pzero: "fmul fone pzero = pzero"
  by (simp add: fone_def pzero_def round_float_def)

lemma fadd_commute: "fadd x y = fadd y x"
proof (cases x)
  case (Finite s1 m1 e1)
  show ?thesis
  proof (cases y)
    case (Finite s2 m2 e2)
    show ?thesis
      unfolding \<open>x = _\<close> \<open>y = _\<close> fadd.simps Let_def
      by (simp only: min.commute [of e1 e2] add.commute [of "signed s1 _"] conj_commute [of s1 s2])
  qed (simp_all add: \<open>x = _\<close>)
next
  case (Infinity s)
  then show ?thesis by (cases y) auto
next
  case NaN
  then show ?thesis by (cases y) auto
qed

lemma floorlog2_le53: "0 < m \<Longrightarrow> m < 2 ^ 53 \<Longrightarrow> floorlog 2 m \<le> 53"
  by (rule floorlog_leI) simp_all

lemma floorlog2_eq53:
  assumes "2 ^ 52 \<le> m" "m < 2 ^ 53"
  shows "floorlog 2 m = 53"
proof -
  have "floorlog 2 m \<le> 53" using assms by (intro floorlog_leI) simp_all
  moreover have "53 \<le> floorlog 2 m" using assms by (intro floorlog_geI) simp_all
  ultimately show ?thesis by simp
qed

text \<open>Every rounded value, and so every sum and every product, is a \<^verbatim>\<open>float64\<close>.\<close>

lemma floorlog2_bounds:
  assumes "0 < m"
  shows "2 ^ (floorlog 2 m - 1) \<le> m" "m < 2 ^ floorlog 2 m" "0 < floorlog 2 m"
  using floorlog_bounds [of m 2] assms by (auto simp: floorlog_eq_zero_iff intro: Nat.gr0I)

lemma rne_shift_bounds: "m div 2 ^ k \<le> rne_shift m k" "rne_shift m k \<le> m div 2 ^ k + 1"
  by (simp_all add: rne_shift_def Let_def)

lemma finite_or_inf_valid:
  "m < 2 ^ 53 \<Longrightarrow> - 1074 \<le> e \<Longrightarrow> e = - 1074 \<or> 2 ^ 52 \<le> m \<Longrightarrow>
   valid_float64 (finite_or_inf s m e)"
  by (simp add: finite_or_inf_def)

lemma round_float_valid: "valid_float64 (round_float s m e)"
proof (cases "m = 0")
  case True
  then show ?thesis by (simp add: round_float_def)
next
  case False
  then have m: "0 < m" by simp
  define n where "n = floorlog 2 m"
  have lo: "2 ^ (n - 1) \<le> m" and hi: "m < 2 ^ n" and n: "0 < n"
    using floorlog2_bounds [OF m] by (simp_all add: n_def)
  define k where "k = max (int n - 53) (- 1074 - e)"
  show ?thesis
  proof (cases "0 < k")
    case True
    define j where "j = nat k"
    have j: "int j = k" "0 < j" using True by (simp_all add: j_def)
    define q where "q = rne_shift m j"
    have "n \<le> 53 + j" using j(1) by (simp add: k_def)
    then have "(2::nat) ^ n \<le> 2 ^ (53 + j)" by (rule power_increasing) simp
    with hi have "m < 2 ^ 53 * 2 ^ j" by (simp add: power_add)
    then have "m div 2 ^ j < 2 ^ 53" by (simp add: less_mult_imp_div_less)
    then have q53: "q \<le> 2 ^ 53" using rne_shift_bounds(2) [of m j] by (simp add: q_def)
    have ge: "- 1074 \<le> e + k" by (simp add: k_def)
    have norm: "e + k = - 1074 \<or> 2 ^ 52 \<le> q"
    proof (cases "k = - 1074 - e")
      case True
      then show ?thesis by simp
    next
      case False
      then have "k = int n - 53" by (auto simp: k_def max_def split: if_splits)
      then have "n - 1 = 52 + j" using j by linarith
      with lo have "2 ^ 52 * 2 ^ j \<le> m" by (simp add: power_add)
      then have "2 ^ 52 \<le> m div 2 ^ j"
        by (metis div_mult_self_is_m div_le_mono zero_less_numeral zero_less_power)
      then have "2 ^ 52 \<le> q" using rne_shift_bounds(1) [of m j] unfolding q_def by linarith
      then show ?thesis by simp
    qed
    have r: "round_float s m e =
          (if q = 2 ^ 53 then finite_or_inf s (2 ^ 52) (e + k + 1) else finite_or_inf s q (e + k))"
      unfolding round_float_def Let_def q_def j_def k_def n_def
      using False True unfolding k_def n_def by (simp only: if_False if_True)
    show ?thesis
    proof (cases "q = 2 ^ 53")
      case True
      have "valid_float64 (finite_or_inf s (2 ^ 52) (e + k + 1))"
        using ge by (intro finite_or_inf_valid) simp_all
      with True r show ?thesis by simp
    next
      case False
      with q53 have "q < 2 ^ 53" by simp
      then have "valid_float64 (finite_or_inf s q (e + k))"
        using ge norm by (intro finite_or_inf_valid)
      with False r show ?thesis by simp
    qed
  next
    case False
    then have n53: "n \<le> 53" and e: "- 1074 \<le> e" by (simp_all add: k_def)
    define d where "d = min (53 - int n) (e + 1074)"
    define j where "j = nat d"
    have d: "0 \<le> d" "int j = d" using n53 e by (simp_all add: d_def j_def)
    have "n + j \<le> 53" using d by (simp add: d_def)
    then have "(2::nat) ^ (n + j) \<le> 2 ^ 53" by (rule power_increasing) simp
    then have a: "(2::nat) ^ n * 2 ^ j \<le> 2 ^ 53" by (simp only: power_add)
    have b: "m * 2 ^ j < 2 ^ n * 2 ^ j" using hi by simp
    from b a have lt: "m * 2 ^ j < 2 ^ 53" by (rule less_le_trans)
    have norm: "e - d = - 1074 \<or> 2 ^ 52 \<le> m * 2 ^ j"
    proof (cases "d = e + 1074")
      case True
      then show ?thesis by simp
    next
      case False
      then have "d = 53 - int n" by (auto simp: d_def min_def split: if_splits)
      then have "n - 1 + j = 52" using d n by linarith
      moreover have "2 ^ (n - 1) * 2 ^ j \<le> m * 2 ^ j" using lo by simp
      ultimately show ?thesis by (simp add: power_add [symmetric])
    qed
    have ge: "- 1074 \<le> e - d" by (simp add: d_def)
    have r: "round_float s m e = finite_or_inf s (m * 2 ^ j) (e - d)"
      unfolding round_float_def Let_def j_def d_def
      using \<open>m \<noteq> 0\<close> False unfolding k_def n_def by (simp only: if_False)
    show ?thesis
      unfolding r using lt ge norm by (rule finite_or_inf_valid)
  qed
qed

lemma fadd_valid: "valid_float64 (fadd x y)"
  by (cases x; cases y) (simp_all add: Let_def round_float_valid)

lemma fmul_valid: "valid_float64 (fmul x y)"
  by (cases x; cases y) (simp_all add: round_float_valid)

text \<open>Rounding leaves a value that is a \<^verbatim>\<open>float64\<close> already as it is.\<close>

lemma round_float_subnormal:
  assumes "0 < m" "m < 2 ^ 53"
  shows "round_float s m (- 1074) = Finite s m (- 1074)"
proof -
  have "floorlog 2 m \<le> 53" using assms by (rule floorlog2_le53)
  then show ?thesis using assms by (simp add: round_float_def finite_or_inf_def Let_def)
qed

lemma round_float_normal:
  assumes "2 ^ 52 \<le> m" "m < 2 ^ 53" "- 1074 < e" "e \<le> 971"
  shows "round_float s (m * 2 ^ nat (e + 1074)) (- 1074) = Finite s m e"
proof -
  let ?j = "nat (e + 1074)"
  have m: "0 < m" using assms(1) by (simp add: Suc_le_eq[symmetric] order.trans[rotated])
  have j: "0 < ?j" using assms(3) by simp
  have fl: "floorlog 2 (m * 2 ^ ?j) = 53 + ?j"
    using m floorlog2_eq53 [OF assms(1,2)] by (simp add: floorlog_power)
  have k: "max (int (floorlog 2 (m * 2 ^ ?j)) - 53) (- 1074 - (- 1074)) = int ?j"
    by (simp add: fl)
  have ne: "m \<noteq> 2 ^ 53" using assms(2) by simp
  have e: "- 1074 + int ?j = e" using assms(3) by simp
  show ?thesis
    unfolding round_float_def Let_def k
    using m j ne assms(4) e by (simp add: rne_shift_def finite_or_inf_def)
qed

lemma signed_abs: "nat \<bar>signed s n\<bar> = n"
  by (simp add: signed_def)

lemma signed_neg: "signed s n < 0 \<longleftrightarrow> s \<and> 0 < n"
  by (simp add: signed_def)

lemma signed_eq_0: "signed s n = 0 \<longleftrightarrow> n = 0"
  by (simp add: signed_def)

lemma signed_0: "signed s 0 = 0"
  by (simp add: signed_def)

text \<open>Adding \<open>+0\<close> gives the number back, and \<open>+0\<close> for \<open>-0\<close>.\<close>

lemma fadd_pzero:
  assumes "valid_float64 x"
  shows "fadd x pzero = (if x = nzero then pzero else x)"
proof (cases x)
  case (Finite s m e)
  with assms have v: "m < 2 ^ 53" "- 1074 \<le> e" "e \<le> 971" "e = - 1074 \<or> 2 ^ 52 \<le> m"
    by simp_all
  show ?thesis
  proof (cases "m = 0")
    case True
    with v(4) have "e = - 1074" by auto
    with True Finite show ?thesis
      by (auto simp: pzero_def nzero_def signed_def Let_def)
  next
    case False
    then have m: "0 < m" by simp
    have mn: "min e (- 1074) = - 1074" using v(2) by simp
    have sum: "fadd x pzero = round_float s (m * 2 ^ nat (e + 1074)) (- 1074)"
      using m by (simp add: Finite pzero_def Let_def mn signed_abs signed_neg signed_eq_0 signed_0)
    show ?thesis
    proof (cases "e = - 1074")
      case True
      then show ?thesis
        using sum round_float_subnormal [OF m v(1)] False by (simp add: Finite nzero_def)
    next
      case False
      with v have "2 ^ 52 \<le> m" "- 1074 < e" by auto
      then show ?thesis
        using sum round_float_normal [of m e s] v \<open>m \<noteq> 0\<close> by (simp add: Finite nzero_def)
    qed
  qed
next
  case (Infinity s)
  then show ?thesis by (simp add: pzero_def nzero_def)
next
  case NaN
  then show ?thesis by (simp add: pzero_def nzero_def)
qed

lemma feq_normalised:
  "valid_float64 x \<Longrightarrow> x \<noteq> NaN \<Longrightarrow> feq (if x = nzero then pzero else x) x"
  by (cases x) (auto simp: nzero_def pzero_def)

lemma map2_fadd_commute: "map2 fadd xs ys = map2 fadd ys xs"
proof (induction xs arbitrary: ys)
  case Nil
  then show ?case by simp
next
  case (Cons x xs)
  then show ?case by (cases ys) (simp_all add: fadd_commute)
qed

lemma map2_fadd_pzero:
  "\<forall>x \<in> set xs. valid_float64 x \<Longrightarrow>
   map2 fadd xs (replicate (length xs) pzero) = map (\<lambda>x. if x = nzero then pzero else x) xs"
  by (induction xs) (simp_all add: fadd_pzero)

lemma valof_pzero: "valof pzero = Some 0"
  by (simp add: pzero_def signed_def)

lemma valof_fone: "valof fone = Some 1"
  by (simp add: fone_def signed_def power_int_def power_one_over)

lemma dot_zeros: "dot (replicate n pzero) x j = Some 0"
  by (induction n arbitrary: j) (simp_all add: valof_pzero)

subsection \<open>The operators, case by case\<close>

lemma Plus_KVector:
  "Plus I a (ExprVal (KVectorExpr b)) =
     (if length a \<noteq> length b then Inl (DimensionError ''Plus'' (KVectorExpr a) (KVectorExpr b))
      else if a = [] then Inl (MatPanic ErrZeroLength)
      else Inr (KVectorExpr (map K (map2 fadd (map float64_of a) (map float64_of b)))))"
  by (subst Plus.simps)
     (auto simp: KVector_Check_def IsExpression_def CheckDimensionsInAddition_def KVector_Len_def
       ToVecDense_eq bind_def AddVec_def VecDenseToKVector_eq)


lemma Multiply_float64:
  "Multiply I kv (Float64Val c) =
     (if kv = [] then Inl (MatPanic ErrZeroLength)
      else Inr (KVectorExpr (map (\<lambda>k. K (fmul c (float64_of k))) kv)))"
  by (subst Multiply.simps)
     (simp add: KVector_Check_def IsExpression_def CheckDimensionsInMultiplication_def
       ToVecDense_eq bind_def ScaleVec_def VecDenseToKVector_eq o_def)

lemma Multiply_K:
  "Multiply I kv (ExprVal (KExpr (K c))) = Multiply I kv (Float64Val c)"
  by (subst Multiply.simps)
     (simp add: KVector_Check_def IsExpression_def CheckDimensionsInMultiplication_def)


text \<open>
  \<^verbatim>\<open>Comparison\<close> with a \<^verbatim>\<open>KVector\<close> of the same length records the receiver on the
  left; with a \<^verbatim>\<open>VariableVector\<close> that passes its check it returns what the operand's
  \<^verbatim>\<open>Comparison\<close> returns for the receiver and the same sense.
\<close>

lemma Comparison_KVector:
  "length rhs = length kv \<Longrightarrow>
   Comparison I kv (ExprVal (KVectorExpr rhs)) sense =
     Inr (VectorConstraint (KVectorExpr kv) (KVectorExpr rhs) sense)"
  by (simp add: Comparison_def KVector_Check_def IsExpression_def Expression_Check_def
      CheckDimensionsInComparison_def KVector_Len_def)

lemma Comparison_VariableVector:
  "Variant_Check I (VariableVectorExpr rhs) = None \<Longrightarrow> length (Elements rhs) = length kv \<Longrightarrow>
   Comparison I kv (ExprVal (VariableVectorExpr rhs)) sense =
     VariableVector_Comparison I rhs (ExprVal (KVectorExpr kv)) sense"
  by (simp add: Comparison_def KVector_Check_def IsExpression_def Expression_Check_def
      CheckDimensionsInComparison_def KVector_Len_def)

section \<open>The claims\<close>

text \<open>
  Claim C1, as the code has it. For every non-empty \<^verbatim>\<open>KVector\<close> \<open>kv\<close> of length \<open>N\<close>,
  \<^verbatim>\<open>kv.LinearCoeff()\<close> is the \<open>N \<times> N\<close> zero matrix and \<^verbatim>\<open>kv.Constant()\<close> is the vector
  itself, so that for every assignment \<open>x\<close> of real numbers to the columns, row \<open>i\<close> of the
  matrix times \<open>x\<close> plus element \<open>i\<close> of the constant is the real number that element \<open>i\<close>
  of \<open>kv\<close> stands for (where the element is an infinity or NaN, neither side has a
  value).
\<close>

theorem LinearCoeff_Constant_affine:
  "kv \<noteq> [] \<Longrightarrow>
   LinearCoeff kv = replicate (length kv) (replicate (length kv) pzero) \<and>
   Constant kv = Inr (map float64_of kv) \<and>
   (\<forall>x. \<forall>i<length kv.
      affine_row (LinearCoeff kv ! i) (map float64_of kv ! i) x = valof (float64_of (kv ! i)))"
  by (auto simp: LinearCoeff_def ZerosMatrix_def KVector_Len_def Constant_def ToVecDense_eq
      affine_row_def dot_zeros split: option.splits)

text \<open>
  For the vector \<open>(1, 0)\<close> and the assignment of \<open>7\<close> to every column: the matrix is the
  \<open>2 \<times> 2\<close> zero matrix, the constant is \<open>(1, 0)\<close>, and the first row evaluates to \<open>1\<close>.
\<close>

theorem LinearCoeff_Constant_affine_witness:
  "LinearCoeff [K fone, K pzero] = [[pzero, pzero], [pzero, pzero]] \<and>
   Constant [K fone, K pzero] = Inr [fone, pzero] \<and>
   affine_row (LinearCoeff [K fone, K pzero] ! 0) fone (\<lambda>j. 7) = Some 1"
proof -
  have ne: "[K fone, K pzero] \<noteq> []" by simp
  note l = LinearCoeff_Constant_affine [OF ne]
  from l have "affine_row (LinearCoeff [K fone, K pzero] ! 0)
                  (map float64_of [K fone, K pzero] ! 0) (\<lambda>j. 7)
               = valof (float64_of ([K fone, K pzero] ! 0))"
    by (metis length_greater_0_conv ne)
  then have "affine_row (LinearCoeff [K fone, K pzero] ! 0) fone (\<lambda>j. 7) = Some 1"
    by (simp add: valof_fone)
  moreover from l have "LinearCoeff [K fone, K pzero] = [[pzero, pzero], [pzero, pzero]]"
    by (simp add: numeral_2_eq_2)
  moreover from l have "Constant [K fone, K pzero] = Inr [fone, pzero]"
    by simp
  ultimately show ?thesis by blast
qed

text \<open>
  Claim C1, as stated, fails on the empty \<^verbatim>\<open>KVector\<close>: \<^verbatim>\<open>Constant\<close> converts it with
  \<^verbatim>\<open>mat.NewVecDense(0, ...)\<close>, which panics, and returns no vector.
\<close>

theorem Constant_empty_panics: "Constant [] = Inl (MatPanic ErrZeroLength)"
  by (simp add: Constant_def ToVecDense_eq)

text \<open>
  Claim C2 fails on the code for a \<^verbatim>\<open>VariableVector\<close> operand. \<^verbatim>\<open>kv.LessEq(vv)\<close> for the
  constant vector \<open>(1)\<close> and a vector \<open>vv\<close> of one valid variable hands \<open>kv\<close> and the unchanged
  sense to \<^verbatim>\<open>vv.Comparison\<close>: the constraint that comes back has \<open>vv\<close> as
  \<^verbatim>\<open>LeftHandSide\<close> and \<open>kv\<close> as \<^verbatim>\<open>RightHandSide\<close>, with the sense \<open>\<le>\<close>.
\<close>

theorem Comparison_VariableVector_swapped:
  "LessEq sample_Impl [K fone] (ExprVal (VariableVectorExpr (VariableVector [Variable 1]))) =
     Inr (VectorConstraint (VariableVectorExpr (VariableVector [Variable 1])) (KVectorExpr [K fone])
            SenseLessThanEqual)"
  by (simp add: LessEq_def Comparison_def KVector_Check_def IsExpression_def Expression_Check_def
      sample_Impl_def VariableVector_Check_def Variable_Check_def
      CheckDimensionsInComparison_def KVector_Len_def VariableVector_Comparison_spec_def)





text \<open>
  Claim C5. \<^verbatim>\<open>kv.AtVec(i)\<close> fails when \<open>i\<close> is outside \<open>[0, Len())\<close>, and for \<open>i\<close> inside it
  returns the \<^verbatim>\<open>K\<close> that is element \<open>i\<close> of \<open>kv\<close>. (The failure is the panic of the
  dense vector, or of its construction when \<open>kv\<close> is empty.)
\<close>

theorem AtVec_range:
  "(idx < 0 \<or> KVector_Len kv \<le> idx \<longrightarrow> (\<exists>e. AtVec kv idx = Inl e)) \<and>
   (0 \<le> idx \<and> idx < KVector_Len kv \<longrightarrow> AtVec kv idx = Inr (KExpr (kv ! nat idx)))"
  by (auto simp: AtVec_def ToVecDense_eq bind_def VecDense_AtVec_def KVector_Len_def)

text \<open>The vector \<open>(1, 0)\<close> at the indices \<open>1\<close>, \<open>2\<close> and \<open>-1\<close>.\<close>

theorem AtVec_range_witness:
  "AtVec [K fone, K pzero] 1 = Inr (KExpr (K pzero)) \<and>
   (\<exists>e. AtVec [K fone, K pzero] 2 = Inl e) \<and>
   (\<exists>e. AtVec [K fone, K pzero] (- 1) = Inl e)"
  using AtVec_range [of 1 "[K fone, K pzero]"] AtVec_range [of 2 "[K fone, K pzero]"]
    AtVec_range [of "- 1" "[K fone, K pzero]"]
  by (simp add: KVector_Len_def)

text \<open>
  Claim C6, as the code has it. For every non-empty \<^verbatim>\<open>KVector\<close> \<open>kv\<close> and every scalar
  \<open>c\<close>, given as a \<^verbatim>\<open>float64\<close> or as a \<^verbatim>\<open>K\<close>, \<^verbatim>\<open>kv.Multiply(c)\<close> returns a \<^verbatim>\<open>KVector\<close> of
  the same length whose element \<open>i\<close> is \<open>c\<close> times element \<open>i\<close> of \<open>kv\<close>.
\<close>

theorem Multiply_scalar:
  "kv \<noteq> [] \<Longrightarrow>
   (\<exists>r. Multiply I kv (Float64Val c) = Inr (KVectorExpr r) \<and>
        Multiply I kv (ExprVal (KExpr (K c))) = Inr (KVectorExpr r) \<and>
        length r = length kv \<and>
        (\<forall>i<length kv. float64_of (r ! i) = fmul c (float64_of (kv ! i))))"
  by (simp add: Multiply_K Multiply_float64)

text \<open>The vector \<open>(1, 0)\<close> times \<open>1\<close> is \<open>(1, 0)\<close>.\<close>

theorem Multiply_scalar_witness:
  "Multiply sample_Impl [K fone, K pzero] (Float64Val fone) = Inr (KVectorExpr [K fone, K pzero]) \<and>
   Multiply sample_Impl [K fone, K pzero] (ExprVal (KExpr (K fone)))
     = Inr (KVectorExpr [K fone, K pzero])"
proof -
  have ne: "[K fone, K pzero] \<noteq> []" by simp
  from Multiply_scalar [OF ne, of sample_Impl fone]
  obtain r where r: "Multiply sample_Impl [K fone, K pzero] (Float64Val fone) = Inr (KVectorExpr r)"
    "Multiply sample_Impl [K fone, K pzero] (ExprVal (KExpr (K fone))) = Inr (KVectorExpr r)"
    by blast
  have "Multiply sample_Impl [K fone, K pzero] (Float64Val fone)
               = Inr (KVectorExpr [K fone, K pzero])"
    by (simp add: Multiply_float64 fmul_fone_fone fmul_fone_pzero)
  with r show ?thesis by simp
qed

text \<open>
  Claim C6, as stated, fails on the empty \<^verbatim>\<open>KVector\<close>: the conversion to a dense vector
  panics, and \<^verbatim>\<open>Multiply\<close> returns no vector.
\<close>

theorem Multiply_scalar_empty_panics:
  "Multiply sample_Impl [] (Float64Val fone) = Inl (MatPanic ErrZeroLength)"
  by (simp add: Multiply_float64)

text \<open>
  Claim C7, as the code has it. For every non-empty \<^verbatim>\<open>KVector\<close> \<open>kv\<close>,
  \<^verbatim>\<open>VecDenseToKVector(kv.ToVecDense())\<close> is \<open>kv\<close>, element by element.
\<close>

theorem ToVecDense_roundtrip:
  "kv \<noteq> [] \<Longrightarrow> bind (ToVecDense kv) VecDenseToKVector = Inr kv"
  by (simp add: ToVecDense_eq bind_def VecDenseToKVector_eq o_def)

theorem ToVecDense_roundtrip_witness:
  "bind (ToVecDense [K fone, K nzero, K (Infinity True)]) VecDenseToKVector
     = Inr [K fone, K nzero, K (Infinity True)]"
  using ToVecDense_roundtrip [of "[K fone, K nzero, K (Infinity True)]"] by simp

text \<open>
  Claim C7, as stated, fails on the empty sequence: \<^verbatim>\<open>ToVecDense\<close> panics on it, so that
  nothing comes back.
\<close>

theorem ToVecDense_roundtrip_empty_panics:
  "bind (ToVecDense []) VecDenseToKVector = Inl (MatPanic ErrZeroLength)"
  by (simp add: ToVecDense_eq bind_def)

text \<open>
  Claim C8, as the code has it. For non-empty \<^verbatim>\<open>KVector\<close>s \<open>a\<close> and \<open>b\<close> of equal length,
  \<^verbatim>\<open>a.Plus(b)\<close> and \<^verbatim>\<open>b.Plus(a)\<close> return the same vector; and \<^verbatim>\<open>a.Plus(zero)\<close>, for the zero
  vector of the length of \<open>a\<close>, returns \<open>a\<close> with every \<open>-0\<close> replaced by \<open>+0\<close>, which is equal
  to \<open>a\<close> under \<^verbatim>\<open>==\<close> element by element when no element is NaN. (The elements are
  \<^verbatim>\<open>float64\<close> values: \<open>valid_float64\<close> holds of every one.) Associativity is not among
  the laws.
\<close>

theorem Plus_commutes_zero_identity:
  "a \<noteq> [] \<Longrightarrow> length b = length a \<Longrightarrow>
   (\<exists>r. Plus I a (ExprVal (KVectorExpr b)) = Inr (KVectorExpr r) \<and>
        Plus I b (ExprVal (KVectorExpr a)) = Inr (KVectorExpr r)) \<and>
   ((\<forall>k \<in> set a. valid_float64 (float64_of k)) \<longrightarrow>
      bind (ZerosVector (KVector_Len a)) VecDenseToKVector = Inr (replicate (length a) (K pzero)) \<and>
      Plus I a (ExprVal (KVectorExpr (replicate (length a) (K pzero)))) =
        Inr (KVectorExpr (map (\<lambda>k. if float64_of k = nzero then K pzero else k) a)) \<and>
      ((\<forall>k \<in> set a. float64_of k \<noteq> NaN) \<longrightarrow>
         KVector_eq (map (\<lambda>k. if float64_of k = nzero then K pzero else k) a) a))"
proof (intro conjI impI)
  assume ne: "a \<noteq> []" and len: "length b = length a"
  then have "b \<noteq> []" by auto
  with ne len show "\<exists>r. Plus I a (ExprVal (KVectorExpr b)) = Inr (KVectorExpr r) \<and>
              Plus I b (ExprVal (KVectorExpr a)) = Inr (KVectorExpr r)"
    by (simp add: Plus_KVector map2_fadd_commute [of "map float64_of a"])
next
  assume ne: "a \<noteq> []"
  then show "bind (ZerosVector (KVector_Len a)) VecDenseToKVector = Inr (replicate (length a) (K pzero))"
    by (simp add: ZerosVector_eq KVector_Len_def bind_def VecDenseToKVector_eq)
next
  assume ne: "a \<noteq> []" and v: "\<forall>k \<in> set a. valid_float64 (float64_of k)"
  then have "\<forall>x \<in> set (map float64_of a). valid_float64 x" by simp
  from map2_fadd_pzero [OF this]
  have "map K (map2 fadd (map float64_of a) (replicate (length a) pzero))
        = map (\<lambda>k. if float64_of k = nzero then K pzero else k) a"
    by (simp add: o_def if_distrib cong: if_cong)
  then show "Plus I a (ExprVal (KVectorExpr (replicate (length a) (K pzero)))) =
                Inr (KVectorExpr (map (\<lambda>k. if float64_of k = nzero then K pzero else k) a))"
    using ne by (simp add: Plus_KVector o_def)
next
  assume v: "\<forall>k \<in> set a. valid_float64 (float64_of k)" and n: "\<forall>k \<in> set a. float64_of k \<noteq> NaN"
  have "feq (float64_of (if float64_of k = nzero then K pzero else k)) (float64_of k)"
    if "k \<in> set a" for k
    using that v n feq_normalised [of "float64_of k"] by (auto split: if_splits)
  then show "KVector_eq (map (\<lambda>k. if float64_of k = nzero then K pzero else k) a) a"
    by (simp add: KVector_eq_def list_all2_map1 list_all2_same)
qed

text \<open>
  The vectors \<open>(1, -0)\<close> and \<open>(0, 1)\<close> commute, and \<open>(1, -0)\<close> plus the zero vector is
  \<open>(1, 0)\<close>, which \<^verbatim>\<open>==\<close> does not tell from \<open>(1, -0)\<close>.
\<close>

theorem Plus_commutes_zero_identity_witness:
  "(\<exists>r. Plus sample_Impl [K fone, K nzero] (ExprVal (KVectorExpr [K pzero, K fone]))
          = Inr (KVectorExpr r) \<and>
        Plus sample_Impl [K pzero, K fone] (ExprVal (KVectorExpr [K fone, K nzero]))
          = Inr (KVectorExpr r)) \<and>
   bind (ZerosVector 2) VecDenseToKVector = Inr [K pzero, K pzero] \<and>
   Plus sample_Impl [K fone, K nzero] (ExprVal (KVectorExpr [K pzero, K pzero]))
     = Inr (KVectorExpr [K fone, K pzero]) \<and>
   KVector_eq [K fone, K pzero] [K fone, K nzero]"
proof -
  have ne: "[K fone, K nzero] \<noteq> []" by simp
  have len: "length [K pzero, K fone] = length [K fone, K nzero]" by simp
  have v: "\<forall>k \<in> set [K fone, K nzero]. valid_float64 (float64_of k)"
    by (simp add: fone_def nzero_def)
  have n: "\<forall>k \<in> set [K fone, K nzero]. float64_of k \<noteq> NaN"
    by (simp add: fone_def nzero_def)
  have d: "fone \<noteq> nzero" by (simp add: fone_def nzero_def)
  from Plus_commutes_zero_identity [OF ne len, of sample_Impl] v n d show ?thesis
    by (simp add: KVector_Len_def numeral_2_eq_2)
qed

text \<open>
  Claim C8, as stated, fails for associativity. With \<open>a = (1)\<close>, \<open>b = (2\<^sup>5\<^sup>3)\<close> and
  \<open>c = (-2\<^sup>5\<^sup>3)\<close>: \<^verbatim>\<open>a.Plus(b)\<close> is \<open>(2\<^sup>5\<^sup>3)\<close>, since \<open>1 + 2\<^sup>5\<^sup>3\<close> rounds to \<open>2\<^sup>5\<^sup>3\<close>, and adding
  \<open>c\<close> to it gives \<open>(0)\<close>; \<^verbatim>\<open>b.Plus(c)\<close> is \<open>(0)\<close>, and \<^verbatim>\<open>a.Plus\<close> of it is \<open>(1)\<close>. The two
  results differ under \<^verbatim>\<open>==\<close>.
\<close>

theorem Plus_not_associative:
  "Plus sample_Impl [K fone] (ExprVal (KVectorExpr [K (Finite False (2 ^ 52) 1)]))
     = Inr (KVectorExpr [K (Finite False (2 ^ 52) 1)]) \<and>
   Plus sample_Impl [K (Finite False (2 ^ 52) 1)] (ExprVal (KVectorExpr [K (Finite True (2 ^ 52) 1)]))
     = Inr (KVectorExpr [K pzero]) \<and>
   Plus sample_Impl [K fone] (ExprVal (KVectorExpr [K pzero]))
     = Inr (KVectorExpr [K fone]) \<and>
   \<not> KVector_eq [K pzero] [K fone]"
  by (simp add: Plus_KVector fone_def pzero_def fadd_1_2p53 fadd_2p53_neg fadd_1_0 KVector_eq_def
      del: fadd.simps)

text \<open>
  Claim C9. For a \<^verbatim>\<open>VariableVector\<close>, a \<^verbatim>\<open>MonomialVector\<close> or a \<^verbatim>\<open>PolynomialVector\<close> \<open>right\<close>
  of the length of \<open>kv\<close>, \<^verbatim>\<open>kv.Plus(right)\<close> returns \<^verbatim>\<open>right.Plus(kv)\<close>.
\<close>

theorem Plus_delegates:
  "(Expression_Len (VariableVectorExpr vv) = KVector_Len kv \<longrightarrow>
      Plus I kv (ExprVal (VariableVectorExpr vv))
        = VariableVector_Plus I vv (ExprVal (KVectorExpr kv))) \<and>
   (Expression_Len (MonomialVectorExpr mv) = KVector_Len kv \<longrightarrow>
      Plus I kv (ExprVal (MonomialVectorExpr mv))
        = MonomialVector_Plus I mv (ExprVal (KVectorExpr kv))) \<and>
   (Expression_Len (PolynomialVectorExpr pv) = KVector_Len kv \<longrightarrow>
      Plus I kv (ExprVal (PolynomialVectorExpr pv))
        = PolynomialVector_Plus I pv (ExprVal (KVectorExpr kv)))"
  by (auto simp: Plus.simps [of I kv "ExprVal (VariableVectorExpr vv)"]
      Plus.simps [of I kv "ExprVal (MonomialVectorExpr mv)"]
      Plus.simps [of I kv "ExprVal (PolynomialVectorExpr pv)"]
      KVector_Check_def IsExpression_def CheckDimensionsInAddition_def)

text \<open>
  The constant vector \<open>(1)\<close> plus a vector of one variable, of one monomial and of one
  polynomial.
\<close>

theorem Plus_delegates_witness:
  "Plus sample_Impl [K fone] (ExprVal (VariableVectorExpr (VariableVector [Variable 1])))
     = VariableVector_Plus sample_Impl (VariableVector [Variable 1]) (ExprVal (KVectorExpr [K fone])) \<and>
   Plus sample_Impl [K fone] (ExprVal (MonomialVectorExpr [Monomial fone [(Variable 1, 2)]]))
     = MonomialVector_Plus sample_Impl [Monomial fone [(Variable 1, 2)]] (ExprVal (KVectorExpr [K fone])) \<and>
   Plus sample_Impl [K fone] (ExprVal (PolynomialVectorExpr [Polynomial [Monomial fone []]]))
     = PolynomialVector_Plus sample_Impl [Polynomial [Monomial fone []]] (ExprVal (KVectorExpr [K fone]))"
  using Plus_delegates [where vv = "VariableVector [Variable 1]" and kv = "[K fone]"
      and mv = "[Monomial fone [(Variable 1, 2)]]" and pv = "[Polynomial [Monomial fone []]]"
      and I = sample_Impl]
  by (simp add: KVector_Len_def)

text \<open>
  Claim C10. \<^verbatim>\<open>kv.Check()\<close> returns \<^verbatim>\<open>nil\<close> for every \<^verbatim>\<open>KVector\<close>, the empty one
  included: no error is ever its result, so the branch of \<^verbatim>\<open>Plus\<close>, \<^verbatim>\<open>Multiply\<close> and
  \<^verbatim>\<open>Comparison\<close> that panics with the error of \<^verbatim>\<open>Check\<close> is never taken.
\<close>

theorem KVector_Check_nil:
  "KVector_Check kv = None \<and> KVector_Check [] = None \<and> (\<forall>err. KVector_Check kv \<noteq> Some err)"
  by (simp add: KVector_Check_def)

end
